theory Spec2Isabelle
  imports Main
begin

section \<open>Python values the tool functions handle\<close>

text \<open>
  A Python \<open>str\<close> is modelled as a HOL \<open>string\<close>, one element per character; the
  characters covered are the code points below 256. Paths are strings.
\<close>

type_synonym path = string

text \<open>\<open>str.isspace\<close>, \<open>str.strip()\<close> and \<open>str.lower()\<close> on those characters.\<close>

definition isspace :: "char \<Rightarrow> bool" where
  "isspace c =
     (let n = (of_char c :: nat)
      in (9 \<le> n \<and> n \<le> 13) \<or> (28 \<le> n \<and> n \<le> 32) \<or> n = 133 \<or> n = 160)"

definition strip :: "string \<Rightarrow> string" where
  "strip s = rev (dropWhile isspace (rev (dropWhile isspace s)))"

definition lower_char :: "char \<Rightarrow> char" where
  "lower_char c =
     (let n = (of_char c :: nat)
      in if (65 \<le> n \<and> n \<le> 90) \<or> (192 \<le> n \<and> n \<le> 222 \<and> n \<noteq> 215)
         then char_of (n + 32) else c)"

definition lower :: "string \<Rightarrow> string" where
  "lower s = map lower_char s"

text \<open>\<open>s.startswith(p)\<close> and the substring test \<open>p in s\<close>.\<close>

fun startswith :: "string \<Rightarrow> string \<Rightarrow> bool" where
  "startswith s [] = True"
| "startswith [] (p # ps) = False"
| "startswith (c # cs) (p # ps) = (c = p \<and> startswith cs ps)"

fun contains :: "string \<Rightarrow> string \<Rightarrow> bool" where
  "contains p [] = (p = [])"
| "contains p (c # cs) = (startswith (c # cs) p \<or> contains p cs)"

text \<open>\<open>any(f(p) for p in ps)\<close>.\<close>

fun any :: "('a \<Rightarrow> bool) \<Rightarrow> 'a list \<Rightarrow> bool" where
  "any f [] = False"
| "any f (p # ps) = (f p \<or> any f ps)"

text \<open>\<open>sep.join(xs)\<close>.\<close>

fun join :: "string \<Rightarrow> string list \<Rightarrow> string" where
  "join sep [] = []"
| "join sep [x] = x"
| "join sep (x # y # ys) = x @ sep @ join sep (y # ys)"

text \<open>\<open>str(n)\<close> for an integer: decimal digits, a minus sign when negative.\<close>

definition digit_char :: "nat \<Rightarrow> char" where
  "digit_char d = char_of (48 + d)"

function str_nat :: "nat \<Rightarrow> string" where
  "str_nat n = (if n < 10 then [digit_char n] else str_nat (n div 10) @ [digit_char (n mod 10)])"
  by pat_completeness auto
termination
  by (relation "measure id") auto

declare str_nat.simps [simp del]

definition str_int :: "int \<Rightarrow> string" where
  "str_int i = (if i < 0 then CHR ''-'' # str_nat (nat (- i)) else str_nat (nat i))"

text \<open>
  A Python \<open>float\<close> is carried by its \<open>repr\<close>, which identifies a double; no arithmetic
  on floats is needed. \<open>str(x)\<close> of a float is that text.
\<close>

datatype pyfloat = Float string

fun str_float :: "pyfloat \<Rightarrow> string" where
  "str_float (Float r) = r"

text \<open>
  The values a spreadsheet cell or a table column holds: \<open>None\<close>, a string, an integer, a
  float, or a date (which \<open>json.dumps\<close> cannot serialise).
\<close>

datatype pyval = NoneV | StrV string | IntV int | FloatV pyfloat | DatetimeV string

fun str_val :: "pyval \<Rightarrow> string" where
  "str_val NoneV = ''None''"
| "str_val (StrV s) = s"
| "str_val (IntV i) = str_int i"
| "str_val (FloatV f) = str_float f"
| "str_val (DatetimeV s) = s"

subsection \<open>Exceptions\<close>

text \<open>
  A raised exception is an instance of \<open>Exception\<close>, or one of the system-exiting
  exceptions (\<open>KeyboardInterrupt\<close>, \<open>SystemExit\<close>, \<open>GeneratorExit\<close>), which derive from
  \<open>BaseException\<close> only; \<open>str_exn e\<close> is \<open>str(e)\<close>. A clause \<open>except Exception as e\<close>
  handles the first kind alone.
\<close>

datatype exn = is_Exception: Exception (str_exn: string) | SystemExiting (str_exn: string)

subsection \<open>\<open>json.dumps\<close>\<close>

text \<open>
  The dictionaries the tool functions serialise are flat: their values are \<open>None\<close>,
  integers, floats, strings and lists of strings. \<open>json.dumps\<close> runs with its defaults:
  \<open>ensure_ascii\<close>, separators \<open>", "\<close> and \<open>": "\<close>, keys in insertion order.
\<close>

datatype jval = JNull | JInt int | JFloat pyfloat | JStr string | JStrList "string list"

definition hex_digit :: "nat \<Rightarrow> char" where
  "hex_digit d = (if d < 10 then char_of (48 + d) else char_of (87 + d))"

definition escape_char :: "char \<Rightarrow> string" where
  "escape_char c =
     (let n = (of_char c :: nat)
      in if n = 34 then [CHR 0x5C, CHR 0x22]
         else if n = 92 then [CHR 0x5C, CHR 0x5C]
         else if n = 10 then [CHR 0x5C, CHR ''n'']
         else if n = 13 then [CHR 0x5C, CHR ''r'']
         else if n = 9 then [CHR 0x5C, CHR ''t'']
         else if n = 8 then [CHR 0x5C, CHR ''b'']
         else if n = 12 then [CHR 0x5C, CHR ''f'']
         else if 32 \<le> n \<and> n \<le> 126 then [c]
         else [CHR 0x5C, CHR ''u'', CHR ''0'', CHR ''0'', hex_digit (n div 16), hex_digit (n mod 16)])"

definition json_string :: "string \<Rightarrow> string" where
  "json_string s = CHR 0x22 # concat (map escape_char s) @ [CHR 0x22]"

fun json_float :: "pyfloat \<Rightarrow> string" where
  "json_float (Float r) =
     (if r = ''inf'' then ''Infinity'' else if r = ''-inf'' then ''-Infinity''
      else if r = ''nan'' then ''NaN'' else r)"

fun json_value :: "jval \<Rightarrow> string" where
  "json_value JNull = ''null''"
| "json_value (JInt i) = str_int i"
| "json_value (JFloat f) = json_float f"
| "json_value (JStr s) = json_string s"
| "json_value (JStrList xs) = ''['' @ join '', '' (map json_string xs) @ '']''"

definition json_item :: "string \<times> jval \<Rightarrow> string" where
  "json_item kv = json_string (fst kv) @ '': '' @ json_value (snd kv)"

definition json_dumps :: "(string \<times> jval) list \<Rightarrow> string" where
  "json_dumps d = ''{'' @ join '', '' (map json_item d) @ ''}''"


section \<open>The external world\<close>

text \<open>
  The file formats belong to the wrapped libraries, so a file is modelled by what its
  library reads from it: plain bytes, the pages of a PDF, the table of a CSV file, a
  workbook, a Word document.
\<close>

type_synonym page = "(int \<times> int \<times> string) list"

record dataframe =
  df_columns :: "string list"
  df_rows :: "pyval list list"

record worksheet =
  title :: string
  cells :: "nat \<times> nat \<rightharpoonup> pyval"

record workbook =
  worksheets :: "worksheet list"
  active :: nat

record table =
  tbl_rows :: "string list list"
  tbl_columns :: nat

record document =
  paragraphs :: "string list"
  tables :: "table list"

datatype stored = Bytes string | Pdf "page list" | Csv dataframe | Xlsx workbook | Docx document

record completed_process =
  returncode :: int
  stdout :: string
  stderr :: string

text \<open>
  The mutable world: the files, the directories, the subprocesses spawned so far (argument
  vector, timeout, working directory) and the attributes of the tool object a method is
  called on (its \<open>__dict__\<close>).
\<close>

record world =
  files :: "path \<rightharpoonup> stored"
  dirs :: "path set"
  spawned :: "(string list \<times> int \<times> string option) list"
  attrs :: "string \<rightharpoonup> pyval"

text \<open>
  A call of a library function, by name and string arguments. The environment decides
  which calls fail and with which exception (\<open>fault\<close>), what the pure library functions
  compute, which optional libraries were importable, and what a subprocess returns and
  does to the files.
\<close>

datatype op = Call string "string list"

record env =
  fault :: "op \<Rightarrow> exn option"
  abspath :: "path \<Rightarrow> path"
  dirname :: "path \<Rightarrow> path"
  shell :: "string list \<Rightarrow> int \<Rightarrow> string option \<Rightarrow> (path \<rightharpoonup> stored)
            \<Rightarrow> (exn + completed_process) \<times> (path \<rightharpoonup> stored)"
  encode :: "string \<Rightarrow> string"
  decode :: "string \<Rightarrow> string"
  raw :: "stored \<Rightarrow> string"
  py_int :: "string \<Rightarrow> int option"
  py_float :: "string \<Rightarrow> pyfloat option"
  coordinate :: "string \<Rightarrow> (nat \<times> nat) option"
  data_only :: "pyval \<Rightarrow> pyval"
  astype_str :: "pyval \<Rightarrow> string"
  to_string :: "dataframe \<Rightarrow> string"
  sort_values :: "dataframe \<Rightarrow> string \<Rightarrow> bool \<Rightarrow> dataframe"
  OPENPYXL_AVAILABLE :: bool
  PANDAS_AVAILABLE :: bool
  DOCX_AVAILABLE :: bool
  PYPDF2_AVAILABLE :: bool
  REPORTLAB_AVAILABLE :: bool

subsection \<open>Computations that change the world and may raise\<close>

type_synonym 'a io = "world \<Rightarrow> (exn + 'a) \<times> world"

definition returns :: "'a \<Rightarrow> 'a io" where
  "returns x w = (Inr x, w)"

definition raises :: "exn \<Rightarrow> 'a io" where
  "raises e w = (Inl e, w)"

definition and_then :: "'a io \<Rightarrow> ('a \<Rightarrow> 'b io) \<Rightarrow> 'b io" where
  "and_then m f w = (case m w of (Inl e, w') \<Rightarrow> (Inl e, w') | (Inr x, w') \<Rightarrow> f x w')"

text \<open>
  \<open>try: m except Exception as e: h e\<close>. A system-exiting exception passes through.
\<close>

definition try_except :: "'a io \<Rightarrow> (exn \<Rightarrow> 'a io) \<Rightarrow> 'a io" where
  "try_except m h w =
     (case m w of
        (Inl e, w') \<Rightarrow> if is_Exception e then h e w' else (Inl e, w')
      | (Inr x, w') \<Rightarrow> (Inr x, w'))"

text \<open>A library call: it raises what the environment says, or runs.\<close>

definition lib :: "env \<Rightarrow> op \<Rightarrow> 'a io \<Rightarrow> 'a io" where
  "lib env c m = (case fault env c of Some e \<Rightarrow> raises e | None \<Rightarrow> m)"

definition modify :: "(world \<Rightarrow> world) \<Rightarrow> unit io" where
  "modify f w = (Inr (), f w)"

subsection \<open>The operating system\<close>

definition no_such_file :: "path \<Rightarrow> exn" where
  "no_such_file p = Exception (''[Errno 2] No such file or directory: '' @ [CHR 0x27] @ p @ [CHR 0x27])"

definition raw_bytes :: "env \<Rightarrow> stored \<Rightarrow> string" where
  "raw_bytes env f = (case f of Bytes b \<Rightarrow> b | _ \<Rightarrow> raw env f)"

text \<open>\<open>os.makedirs(p, exist_ok=True)\<close>.\<close>

definition os_makedirs :: "env \<Rightarrow> path \<Rightarrow> unit io" where
  "os_makedirs env p =
     lib env (Call ''os.makedirs'' [p])
       (\<lambda>w. if p = [] then raises (no_such_file p) w
            else if p \<in> dom (files w)
            then raises (Exception (''[Errno 17] File exists: '' @ [CHR 0x27] @ p @ [CHR 0x27])) w
            else modify (\<lambda>w. w\<lparr>dirs := insert p (dirs w)\<rparr>) w)"

definition os_path_exists :: "path \<Rightarrow> bool io" where
  "os_path_exists p w = (Inr (p \<in> dom (files w) \<or> p \<in> dirs w), w)"

text \<open>
  \<open>open(p, "r")\<close> gives the file; \<open>open(p, "w")\<close> and \<open>open(p, "wb")\<close> create or truncate
  it; \<open>open(p, "a")\<close> creates it when missing.
\<close>

definition is_a_directory :: "path \<Rightarrow> exn" where
  "is_a_directory p = Exception (''[Errno 21] Is a directory: '' @ [CHR 0x27] @ p @ [CHR 0x27])"

definition open_r :: "env \<Rightarrow> path \<Rightarrow> stored io" where
  "open_r env p =
     lib env (Call ''open'' [p, ''r''])
       (\<lambda>w. if p \<in> dirs w then raises (is_a_directory p) w
            else case files w p of None \<Rightarrow> raises (no_such_file p) w | Some f \<Rightarrow> returns f w)"

definition open_w :: "env \<Rightarrow> path \<Rightarrow> unit io" where
  "open_w env p =
     lib env (Call ''open'' [p, ''w''])
       (\<lambda>w. if p \<in> dirs w then raises (is_a_directory p) w
            else modify (\<lambda>w. w\<lparr>files := (files w)(p \<mapsto> Bytes [])\<rparr>) w)"



text \<open>
  \<open>f.read(n)\<close> on a text file: at most \<open>n\<close> characters of the decoded text, all of
  it when \<open>n\<close> is negative.
\<close>

definition file_read :: "env \<Rightarrow> path \<Rightarrow> stored \<Rightarrow> int \<Rightarrow> string io" where
  "file_read env p f n =
     lib env (Call ''read'' [p])
       (returns (if n < 0 then decode env (raw_bytes env f)
                 else take (nat n) (decode env (raw_bytes env f))))"

text \<open>
  \<open>subprocess.run(argv, capture_output=True, text=True, timeout=t, cwd=c)\<close>: the call is
  recorded; the environment gives the completed process or the exception, and the files
  as the subprocess leaves them.
\<close>

definition subprocess_run :: "env \<Rightarrow> string list \<Rightarrow> int \<Rightarrow> string option \<Rightarrow> completed_process io" where
  "subprocess_run env argv t c w =
     (case shell env argv t c (files w) of
        (r, fs) \<Rightarrow> (r, w\<lparr>files := fs, spawned := spawned w @ [(argv, t, c)]\<rparr>))"

section \<open>\<open>Tools/file_io_tools.py\<close>: \<open>FileIOTools\<close>\<close>







definition read_file_body :: "env \<Rightarrow> path \<Rightarrow> int \<Rightarrow> string io" where
  "read_file_body env path max_bytes =
     and_then (open_r env path) (\<lambda>f.
     and_then (file_read env path f max_bytes) (\<lambda>content.
     returns (json_dumps [(''status'', JStr ''ok''), (''content'', JStr content),
                          (''path'', JStr (abspath env path))])))"

definition read_file :: "env \<Rightarrow> path \<Rightarrow> int \<Rightarrow> string io" where
  "read_file env path max_bytes =
     try_except (read_file_body env path max_bytes)
       (\<lambda>e. returns (json_dumps [(''error'', JStr (str_exn e)), (''path'', JStr path)]))"

section \<open>\<open>Tools/shell_tool.py\<close>: \<open>ShellTool\<close>\<close>

definition deny_patterns :: "string list" where
  "deny_patterns = [''remove-item -recurse'', ''rm -rf'', ''rd /s'']"

text \<open>\<open>cwd or None\<close> and \<open>cwd or ""\<close> for an optional string.\<close>

fun or_None :: "string option \<Rightarrow> string option" where
  "or_None None = None"
| "or_None (Some s) = (if s = [] then None else Some s)"

fun or_empty :: "string option \<Rightarrow> string" where
  "or_empty None = []"
| "or_empty (Some s) = s"

definition run_shell_body :: "env \<Rightarrow> string \<Rightarrow> int \<Rightarrow> string option \<Rightarrow> string io" where
  "run_shell_body env command timeout_sec cwd =
     and_then (subprocess_run env [''bash'', ''-c'', command] timeout_sec (or_None cwd)) (\<lambda>proc.
     returns (json_dumps [(''exit_code'', JInt (returncode proc)), (''stdout'', JStr (stdout proc)),
                          (''stderr'', JStr (stderr proc)), (''cwd'', JStr (or_empty cwd))]))"

definition run_shell :: "env \<Rightarrow> string \<Rightarrow> int \<Rightarrow> string option \<Rightarrow> string io" where
  "run_shell env command timeout_sec cwd =
     (let cmd_lc = lower (strip command)
      in if any (\<lambda>p. contains p cmd_lc) deny_patterns
         then returns (json_dumps [(''error'', JStr ''Command blocked by safety policy''),
                                   (''command'', JStr command),
                                   (''reason'', JStr ''matches disallowed destructive pattern'')])
         else try_except (run_shell_body env command timeout_sec cwd)
                (\<lambda>e. returns (json_dumps [(''error'', JStr (str_exn e))])))"

text \<open>The deny-list test of \<open>run_shell\<close>, named for the statements below.\<close>

definition is_denied :: "string \<Rightarrow> bool" where
  "is_denied command = any (\<lambda>p. contains p (lower (strip command))) deny_patterns"

section \<open>\<open>agenttools/csv_tools.py\<close>: \<open>CSVTools\<close>\<close>

definition quoted :: "string \<Rightarrow> string" where
  "quoted s = [CHR 0x27] @ s @ [CHR 0x27]"

text \<open>\<open>pd.read_csv(p)\<close>, \<open>df.head(n)\<close>, \<open>df[df[column].astype(str) == v]\<close>, \<open>df.to_csv(p, index=False)\<close>.\<close>

definition pd_read_csv :: "env \<Rightarrow> path \<Rightarrow> dataframe io" where
  "pd_read_csv env p =
     lib env (Call ''pandas.read_csv'' [p])
       (\<lambda>w. if p \<in> dirs w then raises (is_a_directory p) w
            else case files w p of
                   None \<Rightarrow> raises (no_such_file p) w
                 | Some (Csv df) \<Rightarrow> returns df w
                 | Some _ \<Rightarrow> raises (Exception ''Error tokenizing data'') w)"


fun index_of :: "'a \<Rightarrow> 'a list \<Rightarrow> nat" where
  "index_of x [] = 0"
| "index_of x (y # ys) = (if x = y then 0 else Suc (index_of x ys))"

definition cell_at :: "pyval list \<Rightarrow> nat \<Rightarrow> pyval" where
  "cell_at r i = (if i < length r then r ! i else FloatV (Float ''nan''))"

definition df_filter_eq :: "env \<Rightarrow> dataframe \<Rightarrow> string \<Rightarrow> string \<Rightarrow> dataframe" where
  "df_filter_eq env df column v =
     df\<lparr>df_rows := filter (\<lambda>r. astype_str env (cell_at r (index_of column (df_columns df))) = v)
                      (df_rows df)\<rparr>"

definition df_sort_values :: "env \<Rightarrow> dataframe \<Rightarrow> string \<Rightarrow> bool \<Rightarrow> dataframe io" where
  "df_sort_values env df column ascending =
     lib env (Call ''DataFrame.sort_values'' [column]) (returns (sort_values env df column ascending))"

definition df_to_csv :: "env \<Rightarrow> dataframe \<Rightarrow> path \<Rightarrow> unit io" where
  "df_to_csv env df p =
     lib env (Call ''DataFrame.to_csv'' [p])
       (\<lambda>w. if p \<in> dirs w then raises (is_a_directory p) w
            else modify (\<lambda>w. w\<lparr>files := (files w)(p \<mapsto> Csv df)\<rparr>) w)"



definition filter_csv_body :: "env \<Rightarrow> path \<Rightarrow> string \<Rightarrow> string \<Rightarrow> path \<Rightarrow> string io" where
  "filter_csv_body env file_path column v output_path =
     and_then (pd_read_csv env file_path) (\<lambda>df.
     if column \<notin> set (df_columns df)
     then returns (''Error: Column '' @ quoted column @ '' not found in CSV'')
     else and_then (df_to_csv env (df_filter_eq env df column v) output_path) (\<lambda>_.
          returns (''Filtered '' @ str_int (int (length (df_rows (df_filter_eq env df column v))))
                   @ '' rows to: '' @ output_path)))"

definition filter_csv :: "env \<Rightarrow> path \<Rightarrow> string \<Rightarrow> string \<Rightarrow> path \<Rightarrow> string io" where
  "filter_csv env file_path column v output_path =
     (if \<not> PANDAS_AVAILABLE env then returns ''Error: pandas is not installed''
      else try_except (filter_csv_body env file_path column v output_path)
             (\<lambda>err. returns (''Error filtering CSV: '' @ str_exn err)))"

definition sort_csv_body :: "env \<Rightarrow> path \<Rightarrow> string \<Rightarrow> path \<Rightarrow> bool \<Rightarrow> string io" where
  "sort_csv_body env file_path column output_path ascending =
     and_then (pd_read_csv env file_path) (\<lambda>df.
     if column \<notin> set (df_columns df)
     then returns (''Error: Column '' @ quoted column @ '' not found in CSV'')
     else and_then (df_sort_values env df column ascending) (\<lambda>sorted_df.
          and_then (df_to_csv env sorted_df output_path) (\<lambda>_.
          returns (''CSV sorted by '' @ quoted column @ '' and saved to: '' @ output_path))))"

definition sort_csv :: "env \<Rightarrow> path \<Rightarrow> string \<Rightarrow> path \<Rightarrow> bool \<Rightarrow> string io" where
  "sort_csv env file_path column output_path ascending =
     (if \<not> PANDAS_AVAILABLE env then returns ''Error: pandas is not installed''
      else try_except (sort_csv_body env file_path column output_path ascending)
             (\<lambda>err. returns (''Error sorting CSV: '' @ str_exn err)))"

section \<open>\<open>agenttools/pdf_tools.py\<close>: \<open>PDFTools\<close>\<close>






text \<open>\<open>PdfReader(p).pages\<close>, and \<open>writer.write(f)\<close> for a writer holding \<open>pages\<close>.\<close>

definition PdfReader :: "env \<Rightarrow> path \<Rightarrow> page list io" where
  "PdfReader env p =
     lib env (Call ''PdfReader'' [p])
       (\<lambda>w. if p \<in> dirs w then raises (is_a_directory p) w
            else case files w p of
                   None \<Rightarrow> raises (no_such_file p) w
                 | Some (Pdf ps) \<Rightarrow> returns ps w
                 | Some _ \<Rightarrow> raises (Exception ''EOF marker not found'') w)"

definition PdfWriter_write :: "env \<Rightarrow> page list \<Rightarrow> path \<Rightarrow> unit io" where
  "PdfWriter_write env pages p =
     lib env (Call ''PdfWriter.write'' [p])
       (modify (\<lambda>w. w\<lparr>files := (files w)(p \<mapsto> Pdf pages)\<rparr>))"

text \<open>Python's \<open>xs[i]\<close>: a negative index counts from the end; out of range is \<open>IndexError\<close>.\<close>

definition py_norm :: "nat \<Rightarrow> int \<Rightarrow> nat option" where
  "py_norm len i =
     (let j = (if i < 0 then int len + i else i)
      in if 0 \<le> j \<and> j < int len then Some (nat j) else None)"

definition py_index :: "'a list \<Rightarrow> int \<Rightarrow> 'a io" where
  "py_index xs i =
     (case py_norm (length xs) i of
        None \<Rightarrow> raises (Exception ''list index out of range'')
      | Some j \<Rightarrow> returns (xs ! j))"

definition extract_pdf_page_body :: "env \<Rightarrow> path \<Rightarrow> int \<Rightarrow> path \<Rightarrow> string io" where
  "extract_pdf_page_body env file_path page_number output_path =
     and_then (PdfReader env file_path) (\<lambda>pages.
     if page_number < 1 \<or> page_number > int (length pages)
     then returns (''Error: Page number '' @ str_int page_number @ '' out of range (1-''
                   @ str_int (int (length pages)) @ '')'')
     else and_then (py_index pages (page_number - 1)) (\<lambda>page.
          and_then (open_w env output_path) (\<lambda>_.
          and_then (PdfWriter_write env [page] output_path) (\<lambda>_.
          returns (''Page '' @ str_int page_number @ '' extracted successfully to: '' @ output_path)))))"

definition extract_pdf_page :: "env \<Rightarrow> path \<Rightarrow> int \<Rightarrow> path \<Rightarrow> string io" where
  "extract_pdf_page env file_path page_number output_path =
     (if \<not> PYPDF2_AVAILABLE env then returns ''Error: PyPDF2 is not installed''
      else try_except (extract_pdf_page_body env file_path page_number output_path)
             (\<lambda>err. returns (''Error extracting page: '' @ str_exn err)))"

section \<open>\<open>agenttools/word_tools.py\<close>: \<open>WordTools\<close>\<close>






section \<open>\<open>agenttools/excel_tools.py\<close>: \<open>ExcelTools\<close>\<close>

definition check_openpyxl :: "env \<Rightarrow> string option" where
  "check_openpyxl env =
     (if \<not> OPENPYXL_AVAILABLE env
      then Some (json_dumps [(''error'', JStr ''openpyxl is not installed. Run: pip install openpyxl'')])
      else None)"

text \<open>
  \<open>openpyxl.Workbook()\<close>, \<open>openpyxl.load_workbook(p)\<close>, \<open>wb.sheetnames\<close>,
  \<open>wb.create_sheet(title=s)\<close>, \<open>wb[s]\<close> and \<open>wb.active\<close>. A worksheet variable \<open>ws\<close> refers
  to a sheet of its workbook, so it is the sheet's position; \<open>wb.active\<close> is \<open>None\<close> when
  the active index has no sheet.
\<close>

definition new_Workbook :: workbook where
  "new_Workbook = \<lparr>worksheets = [\<lparr>title = ''Sheet'', cells = Map.empty\<rparr>], active = 0\<rparr>"

definition load_workbook :: "env \<Rightarrow> path \<Rightarrow> workbook io" where
  "load_workbook env p =
     lib env (Call ''openpyxl.load_workbook'' [p])
       (\<lambda>w. if p \<in> dirs w then raises (is_a_directory p) w
            else case files w p of
                   None \<Rightarrow> raises (no_such_file p) w
                 | Some (Xlsx wb) \<Rightarrow> returns wb w
                 | Some _ \<Rightarrow> raises (Exception ''File is not a zip file'') w)"

definition sheetnames :: "workbook \<Rightarrow> string list" where
  "sheetnames wb = map title (worksheets wb)"

definition create_sheet :: "env \<Rightarrow> workbook \<Rightarrow> string \<Rightarrow> workbook io" where
  "create_sheet env wb s =
     lib env (Call ''Workbook.create_sheet'' [s])
       (returns (wb\<lparr>worksheets := worksheets wb @ [\<lparr>title = s, cells = Map.empty\<rparr>]\<rparr>))"

definition wb_getitem :: "workbook \<Rightarrow> string \<Rightarrow> nat option io" where
  "wb_getitem wb s =
     (if s \<in> set (sheetnames wb) then returns (Some (index_of s (sheetnames wb)))
      else raises (Exception (quoted (''Worksheet '' @ s @ '' does not exist.''))))"

definition wb_active :: "workbook \<Rightarrow> nat option" where
  "wb_active wb = (if active wb < length (worksheets wb) then Some (active wb) else None)"

text \<open>
  \<open>ws[cell] = v\<close> and \<open>ws[cell].value\<close>. The library parses the cell reference
  (\<open>coordinate\<close>); with \<open>data_only=True\<close> it gives the stored value as \<open>data_only\<close> maps it.
\<close>

definition ws_setitem :: "env \<Rightarrow> workbook \<Rightarrow> nat option \<Rightarrow> string \<Rightarrow> pyval \<Rightarrow> workbook io" where
  "ws_setitem env wb ws cell v =
     (case ws of
        None \<Rightarrow> raises (Exception (quoted ''NoneType'' @ '' object does not support item assignment''))
      | Some i \<Rightarrow>
          lib env (Call ''Worksheet.__setitem__'' [cell])
            (case coordinate env cell of
               None \<Rightarrow> raises (Exception (''Invalid cell coordinates ('' @ cell @ '')''))
             | Some rc \<Rightarrow>
                 returns (wb\<lparr>worksheets :=
                            (worksheets wb)[i := (worksheets wb ! i)\<lparr>cells := (cells (worksheets wb ! i))(rc \<mapsto> v)\<rparr>]\<rparr>)))"


definition wb_save :: "env \<Rightarrow> workbook \<Rightarrow> path \<Rightarrow> unit io" where
  "wb_save env wb p =
     lib env (Call ''Workbook.save'' [p])
       (\<lambda>w. if p \<in> dirs w then raises (is_a_directory p) w
            else modify (\<lambda>w. w\<lparr>files := (files w)(p \<mapsto> Xlsx wb)\<rparr>) w)"

text \<open>\<open>ws.title\<close>, for a worksheet variable that is not \<open>None\<close>.\<close>

definition ws_title :: "workbook \<Rightarrow> nat option \<Rightarrow> string" where
  "ws_title wb ws = (case ws of None \<Rightarrow> [] | Some i \<Rightarrow> title (worksheets wb ! i))"

text \<open>
  The conversion in \<open>write_cell\<close>: \<open>float(value)\<close> when the string has a dot, \<open>int(value)\<close>
  otherwise, and the string itself when that raises \<open>ValueError\<close>. The two parsers are
  Python's, given by the environment.
\<close>

definition convert_value :: "env \<Rightarrow> string \<Rightarrow> pyval" where
  "convert_value env v =
     (if CHR ''.'' \<in> set v
      then (case py_float env v of Some f \<Rightarrow> FloatV f | None \<Rightarrow> StrV v)
      else (case py_int env v of Some i \<Rightarrow> IntV i | None \<Rightarrow> StrV v))"

text \<open>The worksheet selection shared by \<open>write_cell\<close>: \<open>sheet_name\<close> is optional.\<close>

definition truthy :: "string option \<Rightarrow> bool" where
  "truthy s = (or_empty s \<noteq> [])"

definition write_cell_body :: "env \<Rightarrow> path \<Rightarrow> string \<Rightarrow> string \<Rightarrow> string option \<Rightarrow> string io" where
  "write_cell_body env path cell v sheet_name =
     and_then (if dirname env path \<noteq> [] then os_makedirs env (dirname env path) else returns ()) (\<lambda>_.
     and_then (os_path_exists path) (\<lambda>ex.
     and_then (if ex then load_workbook env path else returns new_Workbook) (\<lambda>wb.
     and_then (if truthy sheet_name \<and> or_empty sheet_name \<notin> set (sheetnames wb)
               then create_sheet env wb (or_empty sheet_name) else returns wb) (\<lambda>wb.
     and_then (if truthy sheet_name then wb_getitem wb (or_empty sheet_name)
               else returns (wb_active wb)) (\<lambda>ws.
     and_then (ws_setitem env wb ws cell (convert_value env v)) (\<lambda>wb.
     and_then (wb_save env wb path) (\<lambda>_.
     returns (json_dumps [(''status'', JStr ''ok''), (''path'', JStr (abspath env path)),
                          (''sheet'', JStr (ws_title wb ws)), (''cell'', JStr cell),
                          (''value'', JStr (str_val (convert_value env v)))]))))))))"

definition write_cell :: "env \<Rightarrow> path \<Rightarrow> string \<Rightarrow> string \<Rightarrow> string option \<Rightarrow> string io" where
  "write_cell env path cell v sheet_name =
     (if truthy (check_openpyxl env) then returns (or_empty (check_openpyxl env))
      else try_except (write_cell_body env path cell v sheet_name)
             (\<lambda>e. returns (json_dumps [(''error'', JStr (str_exn e)), (''path'', JStr path)])))"



section \<open>The tool functions as one catalogue\<close>








subsection \<open>Predicates on computations\<close>




section \<open>Example environments and worlds\<close>

definition example_env :: env where
  "example_env =
     \<lparr>fault = (\<lambda>c. None), abspath = (\<lambda>p. ''/work/'' @ p), dirname = (\<lambda>p. []),
      shell = (\<lambda>argv t c fs. (Inr \<lparr>returncode = 0, stdout = ''out'', stderr = []\<rparr>, fs)),
      encode = (\<lambda>s. s), decode = (\<lambda>s. s), raw = (\<lambda>f. []),
      py_int = (\<lambda>s. if s = ''42'' then Some 42 else None),
      py_float = (\<lambda>s. if s = ''1.50'' then Some (Float ''1.5'') else None),
      coordinate = (\<lambda>s. if s = ''A1'' then Some (1, 1) else None),
      data_only = (\<lambda>v. v), astype_str = str_val, to_string = (\<lambda>df. join '','' (df_columns df)),
      sort_values = (\<lambda>df c a. df),
      OPENPYXL_AVAILABLE = True, PANDAS_AVAILABLE = True, DOCX_AVAILABLE = True,
      PYPDF2_AVAILABLE = True, REPORTLAB_AVAILABLE = True\<rparr>"

definition example_table :: table where
  "example_table = \<lparr>tbl_rows = [[''a'', ''b''], [''c'', ''d'']], tbl_columns = 2\<rparr>"

definition example_world :: world where
  "example_world =
     \<lparr>files = [''notes.txt'' \<mapsto> Bytes ''hello world'',
               ''in.pdf'' \<mapsto> Pdf [[(50, 742, ''one'')], [(50, 742, ''two'')]],
               ''data.csv'' \<mapsto> Csv \<lparr>df_columns = [''name'', ''age''], df_rows = [[StrV ''ann'', IntV 30]]\<rparr>,
               ''report.docx'' \<mapsto> Docx \<lparr>paragraphs = [], tables = [example_table]\<rparr>],
      dirs = {''outdir''}, spawned = [], attrs = Map.empty\<rparr>"

text \<open>The subprocess times out; a library call is interrupted from the keyboard.\<close>

definition timeout_env :: env where
  "timeout_env =
     example_env\<lparr>shell := (\<lambda>argv t c fs. (Inl (Exception ''timed out after 600 seconds''), fs))\<rparr>"




text \<open>The workbook that \<open>write_cell\<close> leaves at \<open>book.xlsx\<close> with \<open>x\<close> in cell \<open>A1\<close>.\<close>

definition written_world :: "pyval \<Rightarrow> world" where
  "written_world x =
     example_world\<lparr>files := (files example_world)(''book.xlsx'' \<mapsto>
       Xlsx \<lparr>worksheets = [\<lparr>title = ''Sheet'', cells = [(1, 1) \<mapsto> x]\<rparr>], active = 0\<rparr>)\<rparr>"

section \<open>Notions the statements use\<close>

text \<open>A result that is a JSON object starting with \<open>"status": "ok"\<close>.\<close>

definition reports_ok :: "string \<Rightarrow> bool" where
  "reports_ok r = startswith r (''{'' @ json_item (''status'', JStr ''ok''))"

text \<open>
  The sheet at position \<open>i\<close> is the one a call with \<open>sheet_name\<close> works on: the sheet of
  that name when \<open>sheet_name\<close> is given, else the active one.
\<close>

definition selected :: "workbook \<Rightarrow> string option \<Rightarrow> nat \<Rightarrow> bool" where
  "selected wb sn i =
     (i < length (worksheets wb) \<and>
      (if truthy sn
       then or_empty sn \<in> set (sheetnames wb) \<and> i = index_of (or_empty sn) (sheetnames wb)
       else active wb = i))"

section \<open>Properties\<close>

subsection \<open>The shape of a tool function\<close>

lemma json_dumps_not_empty: "json_dumps d \<noteq> []"
  by (simp add: json_dumps_def)




lemma startswith_append: "startswith (x @ y) x"
  by (induction x) auto


lemma json_dumps_Cons:
  "json_dumps (kv # d) = ''{'' @ json_item kv @ (if d = [] then [] else '', '' @ join '', '' (map json_item d)) @ ''}''"
  by (cases d) (simp_all add: json_dumps_def)




subsection \<open>Which exceptions a \<open>try\<close> block raises\<close>







lemma is_Exception_no_such_file [simp]: "is_Exception (no_such_file p)"
  by (simp add: no_such_file_def)

lemma is_Exception_is_a_directory [simp]: "is_Exception (is_a_directory p)"
  by (simp add: is_a_directory_def)








subsection \<open>The tool object is never touched\<close>










lemma example_fault [simp]: "fault example_env c = None"
  by (simp add: example_env_def)


subsection \<open>Error handling of every tool function\<close>







subsection \<open>No state is shared between calls\<close>



subsection \<open>The deny list of \<open>run_shell\<close>\<close>

text \<open>
  C2, as the code has it. A command whose stripped, lower-cased form contains a deny-list
  substring gets the JSON object with \<open>"error": "Command blocked by safety policy"\<close>, and
  no subprocess is spawned (the world is unchanged). Any other command spawns
  \<open>bash -c command\<close> once; the result is the JSON object with the keys \<open>exit_code\<close>,
  \<open>stdout\<close>, \<open>stderr\<close> and \<open>cwd\<close> when the subprocess call completes, and the JSON object
  \<open>{"error": text}\<close> when the call raises an instance of \<open>Exception\<close> (a timeout, a
  missing working directory).
\<close>

theorem run_shell_policy:
  "(is_denied command \<longrightarrow>
      run_shell env command timeout_sec cwd w =
        (Inr (json_dumps [(''error'', JStr ''Command blocked by safety policy''),
                          (''command'', JStr command),
                          (''reason'', JStr ''matches disallowed destructive pattern'')]), w)) \<and>
   (\<not> is_denied command \<longrightarrow>
      spawned (snd (run_shell env command timeout_sec cwd w)) =
        spawned w @ [([''bash'', ''-c'', command], timeout_sec, or_None cwd)] \<and>
      fst (run_shell env command timeout_sec cwd w) =
        (case fst (shell env [''bash'', ''-c'', command] timeout_sec (or_None cwd) (files w)) of
           Inr proc \<Rightarrow>
             Inr (json_dumps [(''exit_code'', JInt (returncode proc)), (''stdout'', JStr (stdout proc)),
                              (''stderr'', JStr (stderr proc)), (''cwd'', JStr (or_empty cwd))])
         | Inl e \<Rightarrow>
             if is_Exception e then Inr (json_dumps [(''error'', JStr (str_exn e))]) else Inl e))"
  by (auto simp: is_denied_def run_shell_def returns_def try_except_def run_shell_body_def
        and_then_def subprocess_run_def split: prod.splits sum.splits)

theorem run_shell_policy_witness:
  "is_denied ''  sudo RM -RF /tmp/x'' \<and>
   run_shell example_env ''  sudo RM -RF /tmp/x'' 600 None example_world =
     (Inr (json_dumps [(''error'', JStr ''Command blocked by safety policy''),
                       (''command'', JStr ''  sudo RM -RF /tmp/x''),
                       (''reason'', JStr ''matches disallowed destructive pattern'')]), example_world) \<and>
   \<not> is_denied ''ls'' \<and>
   spawned (snd (run_shell example_env ''ls'' 600 (Some ''/tmp'') example_world)) =
     [([''bash'', ''-c'', ''ls''], 600, Some ''/tmp'')] \<and>
   fst (run_shell example_env ''ls'' 600 (Some ''/tmp'') example_world) =
     Inr (json_dumps [(''exit_code'', JInt 0), (''stdout'', JStr ''out''),
                      (''stderr'', JStr []), (''cwd'', JStr ''/tmp'')])"
proof -
  have d: "is_denied ''  sudo RM -RF /tmp/x''" by code_simp
  have n: "\<not> is_denied ''ls''" by code_simp
  show ?thesis
    using d n run_shell_policy [of "''  sudo RM -RF /tmp/x''" example_env 600 None example_world]
      run_shell_policy [of "''ls''" example_env 600 "Some ''/tmp''" example_world]
    by (simp add: example_env_def example_world_def)
qed

text \<open>
  C2 as stated fails: \<open>sleep 700\<close> is not on the deny list, the subprocess times out, and the
  result has no \<open>exit_code\<close> key.
\<close>

theorem run_shell_timeout_counterexample:
  "\<not> is_denied ''sleep 700'' \<and>
   fst (run_shell timeout_env ''sleep 700'' 600 None example_world) =
     Inr (json_dumps [(''error'', JStr ''timed out after 600 seconds'')]) \<and>
   \<not> contains ''exit_code'' (json_dumps [(''error'', JStr ''timed out after 600 seconds'')])"
  by code_simp

subsection \<open>\<open>read_file\<close> truncates\<close>

text \<open>
  C10. For a file that can be opened and read and a non-negative \<open>max_bytes\<close>, \<open>read_file\<close>
  returns the JSON object whose \<open>content\<close> is the first \<open>max_bytes\<close> characters of the
  decoded text (undecodable bytes replaced by the decoder), so at most \<open>max_bytes\<close>
  characters; the world, and so the file, is unchanged.
\<close>

theorem read_file_truncates:
  assumes "fault env (Call ''open'' [path, ''r'']) = None"
    and "fault env (Call ''read'' [path]) = None"
    and "path \<notin> dirs w"
    and "files w path = Some f"
    and "0 \<le> max_bytes"
  shows "read_file env path max_bytes w =
           (Inr (json_dumps [(''status'', JStr ''ok''),
                             (''content'', JStr (take (nat max_bytes) (decode env (raw_bytes env f)))),
                             (''path'', JStr (abspath env path))]), w) \<and>
         int (length (take (nat max_bytes) (decode env (raw_bytes env f)))) \<le> max_bytes"
  using assms
  by (simp add: read_file_def read_file_body_def try_except_def and_then_def open_r_def
      file_read_def lib_def returns_def)

theorem read_file_truncates_witness:
  "fault example_env (Call ''open'' [''notes.txt'', ''r'']) = None \<and>
   fault example_env (Call ''read'' [''notes.txt'']) = None \<and>
   ''notes.txt'' \<notin> dirs example_world \<and>
   files example_world ''notes.txt'' = Some (Bytes ''hello world'') \<and>
   (0::int) \<le> 5 \<and>
   read_file example_env ''notes.txt'' 5 example_world =
     (Inr (json_dumps [(''status'', JStr ''ok''), (''content'', JStr ''hello''),
                       (''path'', JStr ''/work/notes.txt'')]), example_world)"
proof -
  have d: "''notes.txt'' \<notin> dirs example_world"
    by (simp add: example_world_def)
  have f: "files example_world ''notes.txt'' = Some (Bytes ''hello world'')"
    by (simp add: example_world_def)
  show ?thesis
    using d f read_file_truncates [OF example_fault example_fault d f, of 5]
    by (simp add: raw_bytes_def example_env_def)
qed

subsection \<open>A missing column in \<open>filter_csv\<close> and \<open>sort_csv\<close>\<close>

lemma pd_read_csv_world: "pd_read_csv env p w = (r, w') \<Longrightarrow> w' = w"
  by (auto simp: pd_read_csv_def lib_def raises_def returns_def split: option.splits if_splits stored.splits)

text \<open>
  C6. When pandas is installed and the CSV file reads as the table \<open>df\<close>, and \<open>column\<close> is
  not one of its columns, \<open>filter_csv\<close> and \<open>sort_csv\<close> return the message naming the
  column and leave the world unchanged: nothing is created or written at \<open>output_path\<close>.
\<close>

theorem missing_column_is_reported:
  assumes "PANDAS_AVAILABLE env"
    and "pd_read_csv env file_path w = (Inr df, w')"
    and "column \<notin> set (df_columns df)"
  shows "filter_csv env file_path column v output_path w =
           (Inr (''Error: Column '' @ quoted column @ '' not found in CSV''), w) \<and>
         sort_csv env file_path column output_path ascending w =
           (Inr (''Error: Column '' @ quoted column @ '' not found in CSV''), w)"
  using assms pd_read_csv_world [OF assms(2)]
  by (simp add: filter_csv_def filter_csv_body_def sort_csv_def sort_csv_body_def
      try_except_def and_then_def returns_def)

theorem missing_column_is_reported_witness:
  "PANDAS_AVAILABLE example_env \<and>
   pd_read_csv example_env ''data.csv'' example_world =
     (Inr \<lparr>df_columns = [''name'', ''age''], df_rows = [[StrV ''ann'', IntV 30]]\<rparr>, example_world) \<and>
   ''city'' \<notin> set [''name'', ''age''] \<and>
   filter_csv example_env ''data.csv'' ''city'' ''Oslo'' ''notes.txt'' example_world =
     (Inr (''Error: Column '' @ quoted ''city'' @ '' not found in CSV''), example_world) \<and>
   sort_csv example_env ''data.csv'' ''city'' ''notes.txt'' True example_world =
     (Inr (''Error: Column '' @ quoted ''city'' @ '' not found in CSV''), example_world) \<and>
   files example_world ''notes.txt'' = Some (Bytes ''hello world'')"
proof -
  have a: "PANDAS_AVAILABLE example_env"
    by (simp add: example_env_def)
  have r: "pd_read_csv example_env ''data.csv'' example_world =
     (Inr \<lparr>df_columns = [''name'', ''age''], df_rows = [[StrV ''ann'', IntV 30]]\<rparr>, example_world)"
    by (simp add: pd_read_csv_def lib_def returns_def example_world_def)
  have c: "''city'' \<notin> set (df_columns \<lparr>df_columns = [''name'', ''age''], df_rows = [[StrV ''ann'', IntV 30]]\<rparr>)"
    by simp
  have f: "files example_world ''notes.txt'' = Some (Bytes ''hello world'')"
    by (simp add: example_world_def)
  show ?thesis
    using a r f missing_column_is_reported [OF a r c, of "''Oslo''" "''notes.txt''" True]
    by simp
qed

subsection \<open>The page range of \<open>extract_pdf_page\<close>\<close>

lemma PdfReader_world: "PdfReader env p w = (r, w') \<Longrightarrow> w' = w"
  by (auto simp: PdfReader_def lib_def raises_def returns_def split: option.splits if_splits stored.splits)

lemma py_norm_in_range: "0 \<le> i \<Longrightarrow> i < int n \<Longrightarrow> py_norm n i = Some (nat i)"
  by (simp add: py_norm_def)

text \<open>
  C5, as the code has it. With PyPDF2 installed and a file that reads as a PDF with the
  pages \<open>pages\<close>: a page number below 1 or above the page count gives the out-of-range
  message naming the range \<open>1-n\<close>, and the world is unchanged; a page number in range, when
  \<open>output_path\<close> can be opened and written, writes exactly the page at that 1-based
  position and gives the success message; and when \<open>output_path\<close> cannot be opened (it is
  a directory) the result is the message \<open>Error extracting page: ...\<close> and nothing is
  written.
\<close>

theorem extract_pdf_page_range:
  assumes "PYPDF2_AVAILABLE env"
    and "PdfReader env file_path w = (Inr pages, w')"
  shows "(page_number < 1 \<or> page_number > int (length pages) \<longrightarrow>
            extract_pdf_page env file_path page_number output_path w =
              (Inr (''Error: Page number '' @ str_int page_number @ '' out of range (1-''
                    @ str_int (int (length pages)) @ '')''), w)) \<and>
         (1 \<le> page_number \<and> page_number \<le> int (length pages) \<and>
          fault env (Call ''open'' [output_path, ''w'']) = None \<and> output_path \<notin> dirs w \<and>
          fault env (Call ''PdfWriter.write'' [output_path]) = None \<longrightarrow>
            extract_pdf_page env file_path page_number output_path w =
              (Inr (''Page '' @ str_int page_number @ '' extracted successfully to: '' @ output_path),
               w\<lparr>files := (files w)(output_path \<mapsto> Pdf [pages ! nat (page_number - 1)])\<rparr>)) \<and>
         (1 \<le> page_number \<and> page_number \<le> int (length pages) \<and>
          fault env (Call ''open'' [output_path, ''w'']) = None \<and> output_path \<in> dirs w \<longrightarrow>
            extract_pdf_page env file_path page_number output_path w =
              (Inr (''Error extracting page: '' @ str_exn (is_a_directory output_path)), w))"
  using assms PdfReader_world [OF assms(2)]
  by (auto simp: extract_pdf_page_def extract_pdf_page_body_def try_except_def and_then_def
      returns_def raises_def py_index_def py_norm_in_range open_w_def PdfWriter_write_def lib_def
      modify_def)

text \<open>
  C5 as stated fails: page 2 of a two-page PDF is in range, but with a directory as
  \<open>output_path\<close> the result is an error message and no success.
\<close>

theorem extract_pdf_page_unwritable_counterexample:
  "PYPDF2_AVAILABLE example_env \<and>
   fst (PdfReader example_env ''in.pdf'' example_world) = Inr [[(50, 742, ''one'')], [(50, 742, ''two'')]] \<and>
   (1::int) \<le> 2 \<and> (2::int) \<le> int (length [[(50::int, 742::int, ''one'')], [(50, 742, ''two'')]]) \<and>
   fst (extract_pdf_page example_env ''in.pdf'' 2 ''outdir'' example_world) =
     Inr (''Error extracting page: '' @ str_exn (is_a_directory ''outdir'')) \<and>
   \<not> startswith (''Error extracting page: '' @ str_exn (is_a_directory ''outdir'')) ''Page 2 extracted successfully'' \<and>
   files example_world ''outdir'' = None"
  by (simp add: example_world_def) code_simp

theorem extract_pdf_page_range_witness:
  "PYPDF2_AVAILABLE example_env \<and>
   PdfReader example_env ''in.pdf'' example_world =
     (Inr [[(50, 742, ''one'')], [(50, 742, ''two'')]], example_world) \<and>
   extract_pdf_page example_env ''in.pdf'' 3 ''page.pdf'' example_world =
     (Inr (''Error: Page number '' @ str_int 3 @ '' out of range (1-'' @ str_int 2 @ '')''), example_world) \<and>
   fault example_env (Call ''open'' [''page.pdf'', ''w'']) = None \<and> ''page.pdf'' \<notin> dirs example_world \<and>
   fault example_env (Call ''PdfWriter.write'' [''page.pdf'']) = None \<and>
   extract_pdf_page example_env ''in.pdf'' 2 ''page.pdf'' example_world =
     (Inr (''Page '' @ str_int 2 @ '' extracted successfully to: page.pdf''),
      example_world\<lparr>files := (files example_world)(''page.pdf'' \<mapsto> Pdf [[(50, 742, ''two'')]])\<rparr>) \<and>
   ''outdir'' \<in> dirs example_world \<and>
   extract_pdf_page example_env ''in.pdf'' 2 ''outdir'' example_world =
     (Inr (''Error extracting page: '' @ str_exn (is_a_directory ''outdir'')), example_world)"
proof -
  have a: "PYPDF2_AVAILABLE example_env"
    by (simp add: example_env_def)
  have r: "PdfReader example_env ''in.pdf'' example_world =
     (Inr [[(50, 742, ''one'')], [(50, 742, ''two'')]], example_world)"
    by (simp add: PdfReader_def lib_def returns_def example_world_def)
  have d: "''page.pdf'' \<notin> dirs example_world" "''outdir'' \<in> dirs example_world"
    by (simp_all add: example_world_def)
  have n: "nat (2 - 1) = Suc 0"
    by simp
  show ?thesis
    using a r d
      extract_pdf_page_range [OF a r, of 3 "''page.pdf''"]
      extract_pdf_page_range [OF a r, of 2 "''page.pdf''"]
      extract_pdf_page_range [OF a r, of 2 "''outdir''"]
    by (simp add: n)
qed

subsection \<open>Negative indices in \<open>set_table_cell\<close>\<close>







subsection \<open>\<open>write_cell\<close> and \<open>read_cell\<close>\<close>

lemma error_json_not_ok: "\<not> reports_ok (json_dumps ((''error'', x) # d))"
  by (simp add: reports_ok_def json_dumps_Cons json_item_def json_string_def escape_char_def)

lemma sheetnames_setitem:
  "i < length (worksheets wb) \<Longrightarrow>
   sheetnames (wb\<lparr>worksheets := (worksheets wb)[i := (worksheets wb ! i)\<lparr>cells := c\<rparr>]\<rparr>) = sheetnames wb"
  by (simp add: sheetnames_def map_update list_update_same_conv)

lemma index_of_less: "x \<in> set xs \<Longrightarrow> index_of x xs < length xs"
  by (induction xs) auto

lemma sheet_index_less:
  "s \<in> set (sheetnames wb) \<Longrightarrow> index_of s (sheetnames wb) < length (worksheets wb)"
  using index_of_less [of s "sheetnames wb"] by (simp add: sheetnames_def)

lemma write_cell_ok_body:
  assumes "write_cell env path cell v sn w = (Inr r, w')" and "reports_ok r"
  shows "write_cell_body env path cell v sn w = (Inr r, w')"
proof (cases "OPENPYXL_AVAILABLE env")
  case False
  with assms show ?thesis
    by (auto simp: write_cell_def truthy_def check_openpyxl_def json_dumps_not_empty returns_def
        error_json_not_ok)
next
  case True
  with assms show ?thesis
    by (auto simp: write_cell_def truthy_def check_openpyxl_def try_except_def returns_def
        error_json_not_ok split: prod.splits sum.splits if_splits)
qed


lemma and_then_Inr:
  assumes "and_then m f w = (Inr r, w')"
  obtains x w1 where "m w = (Inr x, w1)" and "f x w1 = (Inr r, w')"
  using assms by (auto simp: and_then_def split: prod.splits sum.splits)

lemma create_sheet_Inr:
  "create_sheet env wb s w = (Inr wb', w') \<Longrightarrow>
   w' = w \<and> wb' = wb\<lparr>worksheets := worksheets wb @ [\<lparr>title = s, cells = Map.empty\<rparr>]\<rparr>"
  by (auto simp: create_sheet_def lib_def raises_def returns_def split: option.splits)

lemma wb_getitem_Inr:
  "wb_getitem wb s w = (Inr ws, w') \<Longrightarrow>
   w' = w \<and> s \<in> set (sheetnames wb) \<and> ws = Some (index_of s (sheetnames wb))"
  by (auto simp: wb_getitem_def raises_def returns_def split: if_splits)

lemma ws_setitem_Inr:
  "ws_setitem env wb ws cell x w = (Inr wb', w') \<Longrightarrow>
   w' = w \<and> (\<exists>i rc. ws = Some i \<and> coordinate env cell = Some rc \<and>
     wb' = wb\<lparr>worksheets := (worksheets wb)[i := (worksheets wb ! i)\<lparr>cells := (cells (worksheets wb ! i))(rc \<mapsto> x)\<rparr>]\<rparr>)"
  by (auto simp: ws_setitem_def lib_def raises_def returns_def split: option.splits)

lemma wb_save_Inr:
  "wb_save env wb p w = (Inr u, w') \<Longrightarrow>
   p \<notin> dirs w \<and> w' = w\<lparr>files := (files w)(p \<mapsto> Xlsx wb)\<rparr>"
  by (auto simp: wb_save_def lib_def raises_def returns_def modify_def split: option.splits if_splits)

lemma write_cell_body_success:
  assumes "write_cell_body env path cell v sn w = (Inr r, w')"
  obtains wb i rc where
    "files w' path = Some (Xlsx wb)" and "path \<notin> dirs w'" and "coordinate env cell = Some rc"
    and "selected wb sn i"
    and "cells (worksheets wb ! i) rc = Some (convert_value env v)"
    and "r = json_dumps [(''status'', JStr ''ok''), (''path'', JStr (abspath env path)),
                         (''sheet'', JStr (title (worksheets wb ! i))), (''cell'', JStr cell),
                         (''value'', JStr (str_val (convert_value env v)))]"
proof -
  from assms obtain wb0 w3 wb1 w4 ws w5 wb2 w6 u' w7 where
    s3: "(if truthy sn \<and> or_empty sn \<notin> set (sheetnames wb0)
          then create_sheet env wb0 (or_empty sn) else returns wb0) w3 = (Inr wb1, w4)"
    and s4: "(if truthy sn then wb_getitem wb1 (or_empty sn) else returns (wb_active wb1)) w4 = (Inr ws, w5)"
    and s5: "ws_setitem env wb1 ws cell (convert_value env v) w5 = (Inr wb2, w6)"
    and s6: "wb_save env wb2 path w6 = (Inr u', w7)"
    and s7: "returns (json_dumps [(''status'', JStr ''ok''), (''path'', JStr (abspath env path)),
                          (''sheet'', JStr (ws_title wb2 ws)), (''cell'', JStr cell),
                          (''value'', JStr (str_val (convert_value env v)))]) w7 = (Inr r, w')"
    unfolding write_cell_body_def by (elim and_then_Inr) blast
  from s5 obtain i rc where ws: "ws = Some i" and rc: "coordinate env cell = Some rc"
    and wb2: "wb2 = wb1\<lparr>worksheets := (worksheets wb1)[i := (worksheets wb1 ! i)\<lparr>cells := (cells (worksheets wb1 ! i))(rc \<mapsto> convert_value env v)\<rparr>]\<rparr>"
    by (blast dest: ws_setitem_Inr)
  from s4 ws have sel1: "selected wb1 sn i"
    by (auto simp: selected_def wb_active_def returns_def sheet_index_less
        dest!: wb_getitem_Inr split: if_splits)
  then have i: "i < length (worksheets wb1)"
    by (simp add: selected_def)
  have same: "sheetnames wb2 = sheetnames wb1" "length (worksheets wb2) = length (worksheets wb1)"
    "active wb2 = active wb1"
    using i by (simp_all add: wb2 sheetnames_setitem)
  have sel2: "selected wb2 sn i"
    using sel1 by (simp add: selected_def same)
  from s6 have f: "path \<notin> dirs w6" "w7 = w6\<lparr>files := (files w6)(path \<mapsto> Xlsx wb2)\<rparr>"
    by (auto dest: wb_save_Inr)
  from s7 have r: "w' = w7" "r = json_dumps [(''status'', JStr ''ok''), (''path'', JStr (abspath env path)),
                          (''sheet'', JStr (ws_title wb2 ws)), (''cell'', JStr cell),
                          (''value'', JStr (str_val (convert_value env v)))]"
    by (auto simp: returns_def)
  show thesis
  proof (rule that [of wb2 rc i])
    show "files w' path = Some (Xlsx wb2)" using f r by simp
    show "path \<notin> dirs w'" using f r by simp
    show "coordinate env cell = Some rc" by (rule rc)
    show "selected wb2 sn i" by (rule sel2)
    show "cells (worksheets wb2 ! i) rc = Some (convert_value env v)" using i by (simp add: wb2)
    show "r = json_dumps [(''status'', JStr ''ok''), (''path'', JStr (abspath env path)),
                         (''sheet'', JStr (title (worksheets wb2 ! i))), (''cell'', JStr cell),
                         (''value'', JStr (str_val (convert_value env v)))]"
      using r ws by (simp add: ws_title_def)
  qed
qed






lemma status_json_ok: "reports_ok (json_dumps ((''status'', JStr ''ok'') # d))"
  unfolding reports_ok_def json_dumps_Cons
  using startswith_append [of "''{'' @ json_item (''status'', JStr ''ok'')"]
  by simp

lemma example_write_cell:
  "write_cell example_env ''book.xlsx'' ''A1'' v None example_world =
     (Inr (json_dumps [(''status'', JStr ''ok''), (''path'', JStr ''/work/book.xlsx''),
                       (''sheet'', JStr ''Sheet''), (''cell'', JStr ''A1''),
                       (''value'', JStr (str_val (convert_value example_env v)))]),
      written_world (convert_value example_env v))"
  by (simp add: write_cell_def write_cell_body_def truthy_def check_openpyxl_def try_except_def
      and_then_def returns_def os_path_exists_def new_Workbook_def wb_active_def ws_setitem_def
      wb_save_def lib_def modify_def ws_title_def written_world_def example_env_def
      example_world_def convert_value_def)



text \<open>
  C8. When \<open>write_cell\<close> reports \<open>"status": "ok"\<close>, the cell of the saved workbook holds
  the converted value and the \<open>value\<close> field of the result is its string form: for a
  string without a dot that \<open>int\<close> parses, the integer; for a string with a dot that
  \<open>float\<close> parses, the float; and only for a string that parses as neither, the string
  itself.
\<close>

theorem write_cell_converts_numbers:
  assumes "write_cell env path cell v sheet_name w = (Inr r, w')" and "reports_ok r"
  shows "(\<exists>wb i rc. files w' path = Some (Xlsx wb) \<and> selected wb sheet_name i \<and>
            coordinate env cell = Some rc \<and>
            cells (worksheets wb ! i) rc = Some (convert_value env v) \<and>
            r = json_dumps [(''status'', JStr ''ok''), (''path'', JStr (abspath env path)),
                            (''sheet'', JStr (title (worksheets wb ! i))), (''cell'', JStr cell),
                            (''value'', JStr (str_val (convert_value env v)))]) \<and>
         (CHR ''.'' \<notin> set v \<and> py_int env v = Some n \<longrightarrow>
            convert_value env v = IntV n \<and> str_val (convert_value env v) = str_int n) \<and>
         (CHR ''.'' \<in> set v \<and> py_float env v = Some f \<longrightarrow>
            convert_value env v = FloatV f \<and> str_val (convert_value env v) = str_float f) \<and>
         (\<not> (CHR ''.'' \<notin> set v \<and> py_int env v \<noteq> None) \<and>
          \<not> (CHR ''.'' \<in> set v \<and> py_float env v \<noteq> None) \<longrightarrow>
            convert_value env v = StrV v \<and> str_val (convert_value env v) = v)"
proof -
  from assms have "write_cell_body env path cell v sheet_name w = (Inr r, w')"
    by (rule write_cell_ok_body)
  then have "\<exists>wb i rc. files w' path = Some (Xlsx wb) \<and> selected wb sheet_name i \<and>
            coordinate env cell = Some rc \<and>
            cells (worksheets wb ! i) rc = Some (convert_value env v) \<and>
            r = json_dumps [(''status'', JStr ''ok''), (''path'', JStr (abspath env path)),
                            (''sheet'', JStr (title (worksheets wb ! i))), (''cell'', JStr cell),
                            (''value'', JStr (str_val (convert_value env v)))]"
    by (elim write_cell_body_success) blast
  then show ?thesis
    by (auto simp: convert_value_def split: option.splits)
qed

theorem write_cell_converts_numbers_witness:
  "write_cell example_env ''book.xlsx'' ''A1'' ''42'' None example_world =
     (Inr (json_dumps [(''status'', JStr ''ok''), (''path'', JStr ''/work/book.xlsx''),
                       (''sheet'', JStr ''Sheet''), (''cell'', JStr ''A1''),
                       (''value'', JStr (str_int 42))]), written_world (IntV 42)) \<and>
   CHR ''.'' \<notin> set ''42'' \<and> py_int example_env ''42'' = Some 42 \<and>
   convert_value example_env ''42'' = IntV 42 \<and>
   CHR ''.'' \<in> set ''1.50'' \<and> py_float example_env ''1.50'' = Some (Float ''1.5'') \<and>
   convert_value example_env ''1.50'' = FloatV (Float ''1.5'') \<and>
   str_val (convert_value example_env ''1.50'') = ''1.5'' \<and>
   py_int example_env ''abc'' = None \<and> CHR ''.'' \<notin> set ''abc'' \<and>
   convert_value example_env ''abc'' = StrV ''abc''"
proof -
  have p: "py_int example_env ''42'' = Some 42" "py_float example_env ''1.50'' = Some (Float ''1.5'')"
    "py_int example_env ''abc'' = None"
    by (simp_all add: example_env_def)
  show ?thesis
    using p
      write_cell_converts_numbers [OF example_write_cell status_json_ok, of "''42''" 42]
      write_cell_converts_numbers [OF example_write_cell status_json_ok, of "''1.50''" _ "Float ''1.5''"]
      write_cell_converts_numbers [OF example_write_cell status_json_ok, of "''abc''"]
      example_write_cell [of "''42''"]
    by simp
qed




end
